theory Spec2Isabelle
  imports
    Complex_Main
    "HOL-Library.Char_ord"
    "HOL-Library.List_Lexorder"
    "HOL-Library.Product_Lexorder"
    "HOL-Library.Sublist"
    "HOL-Library.AList"
begin

section \<open>Values and text\<close>

text \<open>
  The service receives and produces JSON. A decoded JSON value is one of Python's
  \<^verbatim>\<open>None\<close>, \<^verbatim>\<open>bool\<close>, \<^verbatim>\<open>int\<close>, \<^verbatim>\<open>float\<close>, \<^verbatim>\<open>str\<close>, \<^verbatim>\<open>list\<close> and \<^verbatim>\<open>dict\<close>. A dict keeps
  its insertion order, so it is an association list. A float is taken as the real number
  it denotes (NaN and the infinities are left out).

  Text is a list of bytes (UTF-8). Sorting by bytes is sorting by code points. Where the
  source counts or classifies characters (\<^verbatim>\<open>len\<close>, \<^verbatim>\<open>isalnum\<close>, \<^verbatim>\<open>lower\<close>, \<^verbatim>\<open>strip\<close>) the
  definitions below are those of Python on ASCII text.
\<close>

datatype json =
    JNull
  | JBool bool
  | JInt int
  | JFloat real
  | JStr string
  | JArr "json list"
  | JObj "(string \<times> json) list"

text \<open>Python's truth value of an object, as \<^verbatim>\<open>if x\<close> and \<^verbatim>\<open>x or y\<close> take it.\<close>

fun truthy :: "json \<Rightarrow> bool" where
  "truthy JNull = False"
| "truthy (JBool b) = b"
| "truthy (JInt i) = (i \<noteq> 0)"
| "truthy (JFloat r) = (r \<noteq> 0)"
| "truthy (JStr s) = (s \<noteq> [])"
| "truthy (JArr xs) = (xs \<noteq> [])"
| "truthy (JObj kv) = (kv \<noteq> [])"

definition is_space :: "char \<Rightarrow> bool" where
  "is_space c \<longleftrightarrow>
     (let n = (of_char c :: nat) in (9 \<le> n \<and> n \<le> 13) \<or> (28 \<le> n \<and> n \<le> 32))"

definition isalnum :: "char \<Rightarrow> bool" where
  "isalnum c \<longleftrightarrow>
     (let n = (of_char c :: nat)
      in (48 \<le> n \<and> n \<le> 57) \<or> (65 \<le> n \<and> n \<le> 90) \<or> (97 \<le> n \<and> n \<le> 122))"

definition lower :: "char \<Rightarrow> char" where
  "lower c =
     (let n = (of_char c :: nat) in if 65 \<le> n \<and> n \<le> 90 then char_of (n + 32) else c)"

text \<open>\<^verbatim>\<open>s.strip(chars)\<close>: the characters are dropped from both ends.\<close>

definition strip_where :: "(char \<Rightarrow> bool) \<Rightarrow> string \<Rightarrow> string" where
  "strip_where P s = rev (dropWhile P (rev (dropWhile P s)))"

definition strip :: "string \<Rightarrow> string" where
  "strip s = strip_where is_space s"

text \<open>\<^verbatim>\<open>s.split()\<close>: the maximal runs of characters that are not white space.\<close>

fun split_ws :: "string \<Rightarrow> string \<Rightarrow> string list" where
  "split_ws cur [] = (if cur = [] then [] else [cur])"
| "split_ws cur (c # cs) =
     (if is_space c then (if cur = [] then split_ws [] cs else cur # split_ws [] cs)
      else split_ws (cur @ [c]) cs)"

text \<open>The decimal text of a natural number, as an f-string and \<^verbatim>\<open>json.dumps\<close> print it.\<close>

definition digit_char :: "nat \<Rightarrow> char" where
  "digit_char d = char_of (48 + d)"

function str_nat :: "nat \<Rightarrow> string" where
  "str_nat n = (if n < 10 then [digit_char n] else str_nat (n div 10) @ [digit_char (n mod 10)])"
  by pat_completeness auto
termination
  by (relation "measure id") auto

declare str_nat.simps [simp del]

section \<open>The catalog\<close>

text \<open>
  \<^verbatim>\<open>utils/js/operations.json\<close> is read once into \<^verbatim>\<open>CYBERCHEF_OPERATIONS\<close>, a dict from
  operation name to definition. The file is not among the sources, so the catalog is a
  parameter \<open>cat\<close> of every function that reads it. Its entries have the shape that
  \<^verbatim>\<open>data_models/cyberchef_pydantic_models.py\<close> declares: \<^verbatim>\<open>OperationDef\<close> with the five
  kinds of \<^verbatim>\<open>ArgDef\<close> (an entry carries no other keys, so the fallback key \<^verbatim>\<open>"value"\<close> that
  \<^verbatim>\<open>_enum_table\<close> reads is absent). Then every entry parses, and the registry that
  \<^verbatim>\<open>load_definitions\<close> builds has the names of the catalog. \<^verbatim>\<open>infoUrl\<close> and \<^verbatim>\<open>checks\<close> are
  read nowhere and left out.
\<close>

datatype arg_def =
    EnumArgDef (arg_name: string) (options: "string list") (required: bool)
  | NumberArgDef (arg_name: string) (min_v: "real option") (max_v: "real option") (required: bool)
  | StringArgDef (arg_name: string) (required: bool)
  | BooleanArgDef (arg_name: string) (required: bool)
  | BytesArgDef (arg_name: string) (encodings: "string list") (required: bool)

record operation_def =
  module :: string
  description :: "string option"
  inputType :: string
  outputType :: string
  args :: "arg_def list"

type_synonym catalog = "(string \<times> operation_def) list"

text \<open>\<^verbatim>\<open>load_definitions\<close>: the registry \<^verbatim>\<open>op_registry\<close>, a lookup by name.\<close>

definition load_definitions :: "catalog \<Rightarrow> string \<Rightarrow> operation_def option" where
  "load_definitions cat = map_of cat"

section \<open>Enum normalizer\<close>

text \<open>
  \<^verbatim>\<open>_slug\<close>: the text before the first colon, of that the text before the first opening
  parenthesis, every character lowered if alphanumeric and a hyphen otherwise, hyphens
  stripped at both ends.
\<close>

definition slug :: "string \<Rightarrow> string" where
  "slug s =
     (let s1 = takeWhile (\<lambda>c. c \<noteq> CHR '':'') s;
          s2 = takeWhile (\<lambda>c. c \<noteq> CHR ''('') s1
      in strip_where (\<lambda>c. c = CHR ''-'')
           (map (\<lambda>ch. if isalnum ch then lower ch else CHR ''-'') s2))"

text \<open>
  \<^verbatim>\<open>_enum_table\<close>. \<^verbatim>\<open>buckets\<close> is a \<^verbatim>\<open>defaultdict(list)\<close>: a new slug is appended to the
  dict, a known one keeps its place. \<^verbatim>\<open>out[k] = v\<close> is \<^const>\<open>AList.update\<close>, which
  overwrites in place or appends, as a Python dict does.
\<close>

definition bucket_append :: "(string \<times> string list) list \<Rightarrow> string \<times> string \<Rightarrow> (string \<times> string list) list" where
  "bucket_append buckets sl =
     AList.update (fst sl)
       ((case map_of buckets (fst sl) of None \<Rightarrow> [] | Some labels \<Rightarrow> labels) @ [snd sl]) buckets"

definition make_buckets :: "string list \<Rightarrow> string list \<Rightarrow> (string \<times> string list) list" where
  "make_buckets slugs opts = foldl bucket_append [] (zip slugs opts)"

text \<open>
  The keys one bucket writes: the slug itself when it was counted once (its bucket then
  holds one label), otherwise \<^verbatim>\<open>f"{slug}-{idx}"\<close> for \<^verbatim>\<open>idx\<close> from 1.
\<close>

definition bucket_writes :: "string list \<Rightarrow> string \<times> string list \<Rightarrow> (string \<times> string) list" where
  "bucket_writes slugs b =
     (if count_list slugs (fst b) = 1 then (case snd b of [] \<Rightarrow> [] | l # _ \<Rightarrow> [(fst b, l)])
      else map (\<lambda>(idx, label). (fst b @ ''-'' @ str_nat idx, label))
             (zip [1 ..< Suc (length (snd b))] (snd b)))"

definition fill_bucket :: "string list \<Rightarrow> (string \<times> string) list \<Rightarrow> string \<times> string list \<Rightarrow> (string \<times> string) list" where
  "fill_bucket slugs out b = foldl (\<lambda>out kv. AList.update (fst kv) (snd kv) out) out (bucket_writes slugs b)"

definition table_of_options :: "string list \<Rightarrow> (string \<times> string) list" where
  "table_of_options opts =
     (let slugs = map slug opts
      in foldl (fill_bucket slugs) [] (make_buckets slugs opts))"

text \<open>\<^verbatim>\<open>a.get("options", a.get("value", [])) or []\<close> for an entry of the declared shape.\<close>

fun arg_options :: "arg_def \<Rightarrow> string list" where
  "arg_options (EnumArgDef n opts r) = opts"
| "arg_options _ = []"

definition enum_table :: "catalog \<Rightarrow> string \<Rightarrow> string \<Rightarrow> (string \<times> string) list" where
  "enum_table cat op an =
     (case map_of cat op of
        None \<Rightarrow> []
      | Some op_def \<Rightarrow>
          (case find (\<lambda>a. arg_name a = an) (args op_def) of
             None \<Rightarrow> []
           | Some a \<Rightarrow> table_of_options (arg_options a)))"

text \<open>
  \<^verbatim>\<open>_normalize_enum\<close>: a value that is not a string is returned as it is; a string is
  looked up by its slug, then by the first key of the table that starts with the slug.
\<close>

definition normalize_str :: "(string \<times> string) list \<Rightarrow> string \<Rightarrow> string" where
  "normalize_str tab val =
     (let key = slug val
      in case map_of tab key of
           Some v \<Rightarrow> v
         | None \<Rightarrow> (case find (\<lambda>kv. prefix key (fst kv)) tab of Some kv \<Rightarrow> snd kv | None \<Rightarrow> val))"

fun normalize_enum :: "catalog \<Rightarrow> string \<Rightarrow> string \<Rightarrow> json \<Rightarrow> json" where
  "normalize_enum cat op an (JStr val) = JStr (normalize_str (enum_table cat op an) val)"
| "normalize_enum cat op an val = val"

section \<open>What the sources do not contain\<close>

text \<open>
  The similarity scorers and the text processor of the \<^verbatim>\<open>rapidfuzz\<close> library, Python's
  \<^verbatim>\<open>str\<close> of an upstream value, \<^verbatim>\<open>bytes(v).decode("utf-8", "ignore")\<close> (with the empty text
  when that raises), the JSON text of an operation's raw argument list and the configured
  base URL are parameters, gathered in one record.
\<close>

record env =
  default_process :: "string \<Rightarrow> string"
  WRatio :: "string \<Rightarrow> string \<Rightarrow> real"
  partial_token_set_ratio :: "string \<Rightarrow> string \<Rightarrow> real"
  token_set_ratio :: "string \<Rightarrow> string \<Rightarrow> real"
  py_str :: "json \<Rightarrow> string"
  bytes_decode :: "json \<Rightarrow> string"
  args_json :: "arg_def list \<Rightarrow> string"
  CYBERCHEF_API_URL :: string

text \<open>
  \<^verbatim>\<open>process.extract(query, choices, scorer=..., limit=k)\<close> of the library: every choice is
  scored, and the \<open>k\<close> best are returned as \<^verbatim>\<open>(choice, score, index)\<close>, best first.
\<close>

definition process_extract :: "(string \<Rightarrow> string \<Rightarrow> real) \<Rightarrow> string \<Rightarrow> string list \<Rightarrow> nat \<Rightarrow> (string \<times> real \<times> nat) list" where
  "process_extract scorer query choices limit =
     take limit
       (sort_key (\<lambda>csi. - fst (snd csi))
          (map (\<lambda>ic. (snd ic, scorer query (snd ic), fst ic)) (enumerate 0 choices)))"

section \<open>Argument validator\<close>

text \<open>
  \<^verbatim>\<open>OperationDef.validate_args\<close> raises \<^verbatim>\<open>ValueError\<close> with an f-string. An error is kept
  as the constructor of its message with the values the f-string prints.
\<close>

datatype value_error =
    UnknownOp string "string list"
  | UnknownArgs "string list"
  | MissingRequired string
  | NotOneOf string "string list" json
  | NotNumber string
  | BelowMin string real
  | AboveMax string real
  | NotString string
  | NotBoolean string
  | BytesNoValue string
  | BadEncoding string "string list" json
  | EncodingNotString string
  | BytesValueType string
  | BytesType string

text \<open>\<^verbatim>\<open>isinstance(v, (int, float))\<close> holds of a \<^verbatim>\<open>bool\<close> too, which counts as 0 or 1.\<close>

fun is_number :: "json \<Rightarrow> bool" where
  "is_number (JBool b) = True"
| "is_number (JInt i) = True"
| "is_number (JFloat r) = True"
| "is_number _ = False"

fun num_val :: "json \<Rightarrow> real" where
  "num_val (JBool b) = (if b then 1 else 0)"
| "num_val (JInt i) = real_of_int i"
| "num_val (JFloat r) = r"
| "num_val _ = 0"

fun is_str :: "json \<Rightarrow> bool" where
  "is_str (JStr s) = True"
| "is_str _ = False"

fun is_bool :: "json \<Rightarrow> bool" where
  "is_bool (JBool b) = True"
| "is_bool _ = False"

definition check_encoding :: "string \<Rightarrow> string list \<Rightarrow> json option \<Rightarrow> value_error option" where
  "check_encoding n encs enc_opt =
     (case enc_opt of
        None \<Rightarrow> None
      | Some JNull \<Rightarrow> None
      | Some enc \<Rightarrow>
          if encs \<noteq> [] \<and> enc \<notin> set (map JStr encs) then Some (BadEncoding n encs enc)
          else if \<not> is_str enc then Some (EncodingNotString n)
          else None)"

fun check_value :: "arg_def \<Rightarrow> json \<Rightarrow> value_error option" where
  "check_value (EnumArgDef n opts r) v =
     (if v \<notin> set (map JStr opts) then Some (NotOneOf n opts v) else None)"
| "check_value (NumberArgDef n lo hi r) v =
     (if \<not> is_number v then Some (NotNumber n)
      else if (case lo of None \<Rightarrow> False | Some m \<Rightarrow> num_val v < m)
        then Some (BelowMin n (case lo of None \<Rightarrow> 0 | Some m \<Rightarrow> m))
      else if (case hi of None \<Rightarrow> False | Some m \<Rightarrow> num_val v > m)
        then Some (AboveMax n (case hi of None \<Rightarrow> 0 | Some m \<Rightarrow> m))
      else None)"
| "check_value (StringArgDef n r) v = (if \<not> is_str v then Some (NotString n) else None)"
| "check_value (BooleanArgDef n r) v = (if \<not> is_bool v then Some (NotBoolean n) else None)"
| "check_value (BytesArgDef n encs r) v =
     (case v of
        JObj kv \<Rightarrow>
          (case map_of kv ''value'' of
             None \<Rightarrow> Some (BytesNoValue n)
           | Some val \<Rightarrow>
               (case check_encoding n encs (map_of kv ''encoding'') of
                  Some e \<Rightarrow> Some e
                | None \<Rightarrow> if \<not> is_str val then Some (BytesValueType n) else None))
      | JStr s \<Rightarrow> None
      | _ \<Rightarrow> Some (BytesType n))"

definition check_arg :: "(string \<times> json) list \<Rightarrow> arg_def \<Rightarrow> value_error option" where
  "check_arg provided a =
     (case map_of provided (arg_name a) of
        None \<Rightarrow> if required a then Some (MissingRequired (arg_name a)) else None
      | Some v \<Rightarrow> check_value a v)"

fun first_error :: "(string \<times> json) list \<Rightarrow> arg_def list \<Rightarrow> value_error option" where
  "first_error provided [] = None"
| "first_error provided (a # as) =
     (case check_arg provided a of Some e \<Rightarrow> Some e | None \<Rightarrow> first_error provided as)"

definition validate_args :: "operation_def \<Rightarrow> (string \<times> json) list \<Rightarrow> value_error + (string \<times> json) list" where
  "validate_args d provided =
     (let names = set (map arg_name (args d));
          unknown = set (map fst provided) - names
      in if unknown \<noteq> {} then Inl (UnknownArgs (sorted_list_of_set unknown))
         else case first_error provided (args d) of
                Some e \<Rightarrow> Inl e
              | None \<Rightarrow> Inr provided)"

section \<open>Recipe validator\<close>

text \<open>
  \<^verbatim>\<open>RecipeOp\<close> of \<^verbatim>\<open>data_models/tools.py\<close>: an operation name and its arguments.
\<close>

record RecipeOp =
  op :: string
  step_args :: "(string \<times> json) list"

text \<open>
  A step as \<^verbatim>\<open>bake_recipe\<close> receives it is a dict of any keys; the two that are read are
  \<^verbatim>\<open>"op"\<close> and \<^verbatim>\<open>"args"\<close>, each absent or any JSON value.
\<close>

record raw_step =
  op_key :: "json option"
  args_key :: "json option"

text \<open>
  \<^verbatim>\<open>RecipeOp(**operation)\<close>: \<^verbatim>\<open>op\<close> is required and a string; \<^verbatim>\<open>args\<close> is a dict and defaults
  to the empty one. Anything else raises pydantic's \<^verbatim>\<open>ValidationError\<close>, as does a
  \<^verbatim>\<open>ValueError\<close> raised by the validator of \<^verbatim>\<open>CyberChefRecipeOperation\<close>.
\<close>

datatype validation_error = RecipeOpInvalid | CatalogInvalid value_error

definition parse_RecipeOp :: "raw_step \<Rightarrow> validation_error + RecipeOp" where
  "parse_RecipeOp operation =
     (case op_key operation of
        Some (JStr n) \<Rightarrow>
          (case args_key operation of
             None \<Rightarrow> Inr \<lparr>op = n, step_args = []\<rparr>
           | Some (JObj kv) \<Rightarrow> Inr \<lparr>op = n, step_args = kv\<rparr>
           | Some _ \<Rightarrow> Inl RecipeOpInvalid)
      | _ \<Rightarrow> Inl RecipeOpInvalid)"

text \<open>\<^verbatim>\<open>CyberChefRecipeOperation._validate_against_catalog\<close>.\<close>

definition validate_against_catalog :: "catalog \<Rightarrow> RecipeOp \<Rightarrow> validation_error + RecipeOp" where
  "validate_against_catalog cat self =
     (case load_definitions cat (op self) of
        None \<Rightarrow> Inl (CatalogInvalid (UnknownOp (op self) (sort (map fst cat))))
      | Some d \<Rightarrow>
          (case validate_args d (step_args self) of
             Inl e \<Rightarrow> Inl (CatalogInvalid e)
           | Inr _ \<Rightarrow> Inr self))"

text \<open>
  The exceptions that leave a function. \<^verbatim>\<open>requests\<close> raises its own \<^verbatim>\<open>ConnectionError\<close>,
  \<^verbatim>\<open>HTTPError\<close> and \<^verbatim>\<open>JSONDecodeError\<close>; \<^verbatim>\<open>urllib.error.HTTPError\<close> is another class.
\<close>

datatype exn =
    RequestsConnectionError
  | RequestsHTTPError nat
  | RequestsJSONDecodeError
  | UrllibHTTPError string
  | TypeError
  | PydanticValidationError

text \<open>
  An entry of \<^verbatim>\<open>errors\<close> is a text. The message that \<^verbatim>\<open>_validate_recipe\<close> formats is kept
  as the values its f-string prints: the step index, \<^verbatim>\<open>op_name\<close>, \<^verbatim>\<open>expected_args\<close>,
  \<^verbatim>\<open>similar\<close> and the exception.
\<close>

datatype error_text =
    Text string
  | StepInvalid nat "json option" "string list" "string list" validation_error

text \<open>
  The body of the \<^verbatim>\<open>try\<close>: parse the step, normalize every argument value, validate
  against the catalog.
\<close>

definition try_step :: "catalog \<Rightarrow> raw_step \<Rightarrow> validation_error + RecipeOp" where
  "try_step cat operation =
     (case parse_RecipeOp operation of
        Inl e \<Rightarrow> Inl e
      | Inr op_obj \<Rightarrow>
          validate_against_catalog cat
            (op_obj\<lparr>step_args :=
               map (\<lambda>kv. (fst kv, normalize_enum cat (op op_obj) (fst kv) (snd kv)))
                 (step_args op_obj)\<rparr>))"

text \<open>
  The handler of \<^verbatim>\<open>ValidationError\<close>. \<^verbatim>\<open>CYBERCHEF_OPERATIONS.get(op_name, {})\<close> raises
  \<^verbatim>\<open>TypeError\<close> on a list or a dict (unhashable); \<^verbatim>\<open>process.extract\<close> is called when
  \<^verbatim>\<open>op_name\<close> is true, and raises \<^verbatim>\<open>TypeError\<close> on a query that is not a string.
\<close>

definition expected_args :: "catalog \<Rightarrow> json option \<Rightarrow> exn + string list" where
  "expected_args cat op_name =
     (case op_name of
        Some (JArr xs) \<Rightarrow> Inl TypeError
      | Some (JObj kv) \<Rightarrow> Inl TypeError
      | Some (JStr n) \<Rightarrow>
          Inr (case map_of cat n of None \<Rightarrow> [] | Some d \<Rightarrow> map arg_name (args d))
      | _ \<Rightarrow> Inr [])"

definition similar_ops :: "env \<Rightarrow> catalog \<Rightarrow> json option \<Rightarrow> exn + string list" where
  "similar_ops E cat op_name =
     (case op_name of
        None \<Rightarrow> Inr []
      | Some j \<Rightarrow>
          if \<not> truthy j then Inr []
          else (case j of
                  JStr n \<Rightarrow> Inr (map fst (process_extract (WRatio E) n (map fst cat) 3))
                | _ \<Rightarrow> Inl TypeError))"

definition handle_step :: "env \<Rightarrow> catalog \<Rightarrow> nat \<Rightarrow> raw_step \<Rightarrow> validation_error \<Rightarrow> exn + error_text" where
  "handle_step E cat i operation e =
     (let op_name = op_key operation
      in case expected_args cat op_name of
           Inl x \<Rightarrow> Inl x
         | Inr expected \<Rightarrow>
             (case similar_ops E cat op_name of
                Inl x \<Rightarrow> Inl x
              | Inr similar \<Rightarrow> Inr (StepInvalid i op_name expected similar e)))"

text \<open>
  \<^verbatim>\<open>_validate_recipe\<close>: the loop over \<^verbatim>\<open>enumerate(recipe)\<close>, from index \<open>i\<close>. An exception
  that the handler raises ends the loop. \<^verbatim>\<open>warnings\<close> stays empty.
\<close>

fun validate_loop :: "env \<Rightarrow> catalog \<Rightarrow> nat \<Rightarrow> raw_step list \<Rightarrow> exn + (error_text list \<times> RecipeOp list)" where
  "validate_loop E cat i [] = Inr ([], [])"
| "validate_loop E cat i (operation # rest) =
     (case try_step cat operation of
        Inr v \<Rightarrow>
          (case validate_loop E cat (Suc i) rest of
             Inl x \<Rightarrow> Inl x
           | Inr ev \<Rightarrow> Inr (fst ev, v # snd ev))
      | Inl e \<Rightarrow>
          (case handle_step E cat i operation e of
             Inl x \<Rightarrow> Inl x
           | Inr m \<Rightarrow>
               (case validate_loop E cat (Suc i) rest of
                  Inl x \<Rightarrow> Inl x
                | Inr ev \<Rightarrow> Inr (m # fst ev, snd ev))))"

definition validate_recipe_priv :: "env \<Rightarrow> catalog \<Rightarrow> raw_step list \<Rightarrow> exn + (error_text list \<times> RecipeOp list \<times> string list)" where
  "validate_recipe_priv E cat recipe =
     (case validate_loop E cat 0 recipe of
        Inl x \<Rightarrow> Inl x
      | Inr ev \<Rightarrow> Inr (fst ev, snd ev, []))"

section \<open>The execution boundary\<close>

text \<open>
  The remote service is a parameter: what it answers to a POST of a JSON body to an
  endpoint. The answer is a failed transport, or a status code with a body that is JSON
  or is not. Every call made is appended to a log, the state that the tools pass on.
\<close>

datatype http_outcome = TransportFailed | Responded nat "json option"

type_synonym upstream = "string \<Rightarrow> json \<Rightarrow> http_outcome"

type_synonym calls = "(string \<times> json) list"

text \<open>
  The body of the \<^verbatim>\<open>try\<close> in \<^verbatim>\<open>create_api_request\<close>: \<^verbatim>\<open>requests.post\<close>,
  \<^verbatim>\<open>raise_for_status\<close> (which raises on a status from 400 to 599), \<^verbatim>\<open>response.json()\<close>.
\<close>

definition post_json :: "upstream \<Rightarrow> string \<Rightarrow> json \<Rightarrow> exn + json" where
  "post_json up api_url request_data =
     (case up api_url request_data of
        TransportFailed \<Rightarrow> Inl RequestsConnectionError
      | Responded code body \<Rightarrow>
          if 400 \<le> code \<and> code < 600 then Inl (RequestsHTTPError code)
          else (case body of None \<Rightarrow> Inl RequestsJSONDecodeError | Some j \<Rightarrow> Inr j))"

text \<open>
  \<^verbatim>\<open>except HTTPError\<close>, where the name is imported from \<^verbatim>\<open>urllib.error\<close>: the handler
  takes an exception of that class and no other.
\<close>

fun is_urllib_HTTPError :: "exn \<Rightarrow> string option" where
  "is_urllib_HTTPError (UrllibHTTPError msg) = Some msg"
| "is_urllib_HTTPError _ = None"

definition create_api_request :: "env \<Rightarrow> upstream \<Rightarrow> string \<Rightarrow> json \<Rightarrow> calls \<Rightarrow> (exn + json) \<times> calls" where
  \<open>create_api_request E up endpoint request_data w =
     (let api_url = CYBERCHEF_API_URL E @ endpoint
      in (case post_json up api_url request_data of
            Inr j \<Rightarrow> Inr j
          | Inl x \<Rightarrow>
              (case is_urllib_HTTPError x of
                 Some req_exc \<Rightarrow>
                   Inr (JObj [(''error'',
                     JStr (''Exception raised during HTTP POST request to '' @ api_url @ '' - '' @ req_exc))])
               | None \<Rightarrow> Inl x),
          w @ [(api_url, request_data)]))\<close>

section \<open>Executing a recipe\<close>

record BakeRecipeResponse =
  ok :: bool
  "output" :: "string option"
  rtype :: "string option"
  errors :: "error_text list"
  warnings :: "string list"

definition model_dump :: "RecipeOp \<Rightarrow> json" where
  "model_dump r = JObj [(''op'', JStr (op r)), (''args'', JObj (step_args r))]"

text \<open>
  The response built from one upstream answer. The field \<^verbatim>\<open>type\<close> is an optional string:
  pydantic raises on any other value.
\<close>

definition type_field :: "json \<Rightarrow> exn + string option" where
  "type_field t = (case t of JStr s \<Rightarrow> Inr (Some s) | JNull \<Rightarrow> Inr None | _ \<Rightarrow> Inl PydanticValidationError)"

definition response_of :: "env \<Rightarrow> json \<Rightarrow> string list \<Rightarrow> exn + BakeRecipeResponse" where
  "response_of E response_data ws =
     (case response_data of
        JObj kv \<Rightarrow>
          (case (map_of kv ''type'', map_of kv ''value'') of
             (Some t, Some v) \<Rightarrow>
               (case type_field t of
                  Inl x \<Rightarrow> Inl x
                | Inr ty \<Rightarrow>
                    Inr \<lparr>ok = True,
                         output = Some (if t = JStr ''byteArray'' then bytes_decode E v else py_str E v),
                         rtype = ty, errors = [], warnings = ws\<rparr>)
           | (None, Some v) \<Rightarrow>
               Inr \<lparr>ok = True, output = Some (py_str E v), rtype = None, errors = [], warnings = []\<rparr>
           | (_, None) \<Rightarrow>
               (case map_of kv ''error'' of
                  Some e \<Rightarrow>
                    Inr \<lparr>ok = False, output = None, rtype = None,
                         errors = [Text (py_str E e)], warnings = []\<rparr>
                | None \<Rightarrow>
                    Inr \<lparr>ok = True, output = Some (py_str E response_data), rtype = None,
                         errors = [], warnings = []\<rparr>))
      | _ \<Rightarrow>
          Inr \<lparr>ok = True, output = Some (py_str E response_data), rtype = None,
               errors = [], warnings = []\<rparr>)"

definition bake_recipe :: "env \<Rightarrow> catalog \<Rightarrow> upstream \<Rightarrow> string \<Rightarrow> raw_step list \<Rightarrow> calls \<Rightarrow> (exn + BakeRecipeResponse) \<times> calls" where
  \<open>bake_recipe E cat up input_data recipe w =
     (if recipe = [] then
        (Inr \<lparr>ok = False, output = None, rtype = None,
              errors = [Text ''No operations to execute. Provide at least one {op, args} object in 'recipe'.''],
              warnings = []\<rparr>, w)
      else
        (case validate_recipe_priv E cat recipe of
           Inl x \<Rightarrow> (Inl x, w)
         | Inr (errs, validated, ws) \<Rightarrow>
             if errs \<noteq> [] then
               (Inr \<lparr>ok = False, output = None, rtype = None, errors = errs, warnings = ws\<rparr>, w)
             else
               (let request_data =
                      JObj [(''input'', JStr input_data), (''recipe'', JArr (map model_dump validated))]
                in case create_api_request E up ''bake'' request_data w of
                     (Inl x, w') \<Rightarrow> (Inl x, w')
                   | (Inr response_data, w') \<Rightarrow> (response_of E response_data ws, w'))))\<close>

text \<open>
  \<^verbatim>\<open>batch_bake_recipe\<close>. \<^verbatim>\<open>for response in (response_data or [])\<close> runs over the elements
  of a list, the keys of a dict and the characters of a string; a false value gives no
  round, and any other value is not iterable.
\<close>

fun py_iter :: "json \<Rightarrow> exn + json list" where
  "py_iter (JArr xs) = Inr xs"
| "py_iter (JObj kv) = Inr (map (\<lambda>p. JStr (fst p)) kv)"
| "py_iter (JStr s) = Inr (map (\<lambda>c. JStr [c]) s)"
| "py_iter j = (if truthy j then Inl TypeError else Inr [])"

fun collect_responses :: "env \<Rightarrow> json list \<Rightarrow> exn + BakeRecipeResponse list" where
  "collect_responses E [] = Inr []"
| "collect_responses E (r # rs) =
     (case response_of E r [] of
        Inl x \<Rightarrow> Inl x
      | Inr b \<Rightarrow> (case collect_responses E rs of Inl x \<Rightarrow> Inl x | Inr bs \<Rightarrow> Inr (b # bs)))"

definition batch_bake_recipe :: "env \<Rightarrow> catalog \<Rightarrow> upstream \<Rightarrow> string list \<Rightarrow> raw_step list \<Rightarrow> calls \<Rightarrow> (exn + BakeRecipeResponse list) \<times> calls" where
  "batch_bake_recipe E cat up batch_input_data recipe w =
     (case validate_recipe_priv E cat recipe of
        Inl x \<Rightarrow> (Inl x, w)
      | Inr (errs, validated, ws) \<Rightarrow>
          if errs \<noteq> [] then
            (Inr [\<lparr>ok = False, output = None, rtype = None, errors = errs, warnings = []\<rparr>], w)
          else
            (let request_data =
                   JObj [(''input'', JArr (map JStr batch_input_data)),
                         (''recipe'', JArr (map model_dump validated))]
             in case create_api_request E up ''batch/bake'' request_data w of
                  (Inl x, w') \<Rightarrow> (Inl x, w')
                | (Inr response_data, w') \<Rightarrow>
                    (case py_iter response_data of
                       Inl x \<Rightarrow> (Inl x, w')
                     | Inr rs \<Rightarrow> (collect_responses E rs, w'))))"

section \<open>Fuzzy resolver and search\<close>

definition BYTE_CAP :: nat where "BYTE_CAP = 1024"
definition DEFAULT_LIMIT :: int where "DEFAULT_LIMIT = 10"
definition MAX_LIMIT :: int where "MAX_LIMIT = 20"
definition MAX_DESC_LEN :: nat where "MAX_DESC_LEN = 240"

definition CYBERCHEF_ALLOWED_CATEGORIES :: "string list" where
  "CYBERCHEF_ALLOWED_CATEGORIES =
     [''Encodings'', ''Serialise'', ''Default'', ''PublicKey'', ''Hashing'', ''PGP'', ''Ciphers'',
      ''Shellcode'', ''Jq'', ''Handlebars'', ''Yara'', ''Regex'', ''Crypto'',
      ''Compression'', ''URL'', ''Code'', ''UserAgent'', ''Diff'', ''Protobuf'']"

definition norm :: "env \<Rightarrow> string \<Rightarrow> string" where
  "norm E s = default_process E s"

definition tokens :: "env \<Rightarrow> string \<Rightarrow> string list" where
  "tokens E s = filter (\<lambda>t. t \<noteq> []) (split_ws [] (norm E s))"

text \<open>\<^verbatim>\<open>_score_op\<close>, in real arithmetic.\<close>

definition score_op :: "env \<Rightarrow> string \<Rightarrow> string \<Rightarrow> string \<Rightarrow> real" where
  "score_op E q name desc =
     (let normalized_query = norm E q;
          normalized_name = norm E name;
          normalized_desc = norm E desc;
          name_score = WRatio E normalized_query normalized_name;
          desc_score = max (partial_token_set_ratio E normalized_query normalized_desc)
                           (token_set_ratio E normalized_query normalized_desc);
          s0 = 0.75 * name_score + 0.25 * desc_score;
          s1 = (if normalized_query \<noteq> [] \<and> prefix normalized_query normalized_name
                then s0 + 10 else s0);
          s2 = (if normalized_query = normalized_name then s1 + 12 else s1);
          qtok = tokens E q;
          ntok = set (tokens E name);
          s3 = (if \<exists>t \<in> set qtok. t \<in> ntok then s2 + 6 else s2);
          s4 = (if qtok \<noteq> [] \<and> (\<forall>t \<in> set qtok. t \<in> ntok) then s3 + 4 else s3)
      in max 0 (min 100 s4))"

text \<open>
  The \<^verbatim>\<open>limit\<close> argument of \<^verbatim>\<open>search_operations\<close> is \<^verbatim>\<open>None\<close>, an integer or a dict of
  integers.
\<close>

datatype limit_arg = LimitNone | LimitInt int | LimitDict "(string \<times> int) list"

fun resolve_limit :: "limit_arg \<Rightarrow> int" where
  "resolve_limit LimitNone = 10"
| "resolve_limit (LimitInt n) = n"
| "resolve_limit (LimitDict d) = (case map_of d ''value'' of None \<Rightarrow> DEFAULT_LIMIT | Some n \<Rightarrow> n)"

text \<open>\<^verbatim>\<open>max(1, min(int(limit or DEFAULT_LIMIT), MAX_LIMIT))\<close>.\<close>

definition effective_limit :: "limit_arg \<Rightarrow> nat" where
  "effective_limit l =
     (let n = resolve_limit l
      in nat (max 1 (min (if n = 0 then DEFAULT_LIMIT else n) MAX_LIMIT)))"

record item =
  item_name :: string
  item_summary :: string
  item_category :: "string option"
  item_score :: int
  item_inputType :: "string option"
  item_outputType :: "string option"
  item_args :: "arg_def list option"

definition none_if_empty :: "string \<Rightarrow> string option" where
  "none_if_empty s = (if s = [] then None else Some s)"

text \<open>The ellipsis \<^verbatim>\<open>U+2026\<close>, in UTF-8.\<close>

definition ellipsis :: string where
  "ellipsis = [char_of (0xE2 :: nat), char_of (0x80 :: nat), char_of (0xA6 :: nat)]"

definition str_description :: "operation_def \<Rightarrow> string" where
  "str_description d = (case description d of None \<Rightarrow> ''None'' | Some s \<Rightarrow> s)"

text \<open>
  One round of the loop over the candidate indices: \<^const>\<open>None\<close> is \<^verbatim>\<open>continue\<close>.
\<close>

definition make_item :: "env \<Rightarrow> string \<Rightarrow> bool \<Rightarrow> string \<times> operation_def \<Rightarrow> item option" where
  "make_item E q include_args entry =
     (let name = fst entry;
          d = snd entry;
          cat = strip (module d)
      in if CYBERCHEF_ALLOWED_CATEGORIES \<noteq> [] \<and> cat \<noteq> [] \<and> cat \<notin> set CYBERCHEF_ALLOWED_CATEGORIES
         then None
         else
           (let desc0 = strip (str_description d);
                desc = (if length desc0 > MAX_DESC_LEN
                        then take (MAX_DESC_LEN - 1) desc0 @ ellipsis else desc0)
            in Some \<lparr>item_name = name,
                      item_summary = desc,
                      item_category = none_if_empty cat,
                      item_score = \<lfloor>score_op E q name desc\<rfloor>,
                      item_inputType = none_if_empty (inputType d),
                      item_outputType = none_if_empty (outputType d),
                      item_args = (if include_args then Some (args d) else None)\<rparr>))"

text \<open>
  The candidate indices. The source holds them in a set; here they are listed without
  repetition. \<^verbatim>\<open>names[i]\<close> and \<^verbatim>\<open>CYBERCHEF_OPERATIONS[name]\<close> are the entry at position
  \<open>i\<close> of the catalog, whose keys are distinct.
\<close>

definition candidate_idxs :: "env \<Rightarrow> catalog \<Rightarrow> string \<Rightarrow> nat \<Rightarrow> nat list" where
  "candidate_idxs E cat q limit =
     (let names = map fst cat;
          descs = map (\<lambda>e. str_description (snd e)) cat
      in if q = [] then [0 ..< min (limit * 2) (length names)]
         else remdups
           (map (\<lambda>m. snd (snd m)) (process_extract (WRatio E) q names (limit * 2)) @
            map (\<lambda>m. snd (snd m)) (process_extract (partial_token_set_ratio E) q descs (limit * 2))))"

definition collect_items :: "env \<Rightarrow> catalog \<Rightarrow> string \<Rightarrow> bool \<Rightarrow> nat list \<Rightarrow> item list" where
  "collect_items E cat q include_args idxs =
     List.map_filter (\<lambda>i. make_item E q include_args (cat ! i)) idxs"

definition sort_items :: "item list \<Rightarrow> item list" where
  "sort_items xs = sort_key (\<lambda>x. (- item_score x, item_name x)) xs"

subsection \<open>Result size governor\<close>

text \<open>
  \<^verbatim>\<open>json.dumps(..., ensure_ascii=False).encode("utf-8")\<close> of the preview. A string is
  quoted, with the quote, the backslash and the control characters escaped.
\<close>

definition hex_digit :: "nat \<Rightarrow> char" where
  "hex_digit d = (if d < 10 then char_of (48 + d) else char_of (87 + d))"

definition json_escape :: "char \<Rightarrow> string" where
  "json_escape c =
     (let n = (of_char c :: nat); bs = char_of (92 :: nat)
      in if n = 34 then [bs, c]
         else if n = 92 then [bs, bs]
         else if n = 8 then [bs, CHR ''b'']
         else if n = 9 then [bs, CHR ''t'']
         else if n = 10 then [bs, CHR ''n'']
         else if n = 12 then [bs, CHR ''f'']
         else if n = 13 then [bs, CHR ''r'']
         else if n < 32 then [bs, CHR ''u'', CHR ''0'', CHR ''0'', hex_digit (n div 16), hex_digit (n mod 16)]
         else [c])"

definition dumps_str :: "string \<Rightarrow> string" where
  "dumps_str s = [char_of (34 :: nat)] @ concat (map json_escape s) @ [char_of (34 :: nat)]"

definition dumps_opt :: "string option \<Rightarrow> string" where
  "dumps_opt s = (case s of None \<Rightarrow> ''null'' | Some t \<Rightarrow> dumps_str t)"

definition dumps_int :: "int \<Rightarrow> string" where
  "dumps_int i = (if i < 0 then ''-'' @ str_nat (nat (- i)) else str_nat (nat i))"

fun join :: "string \<Rightarrow> string list \<Rightarrow> string" where
  "join sep [] = []"
| "join sep [x] = x"
| "join sep (x # y # ys) = x @ sep @ join sep (y # ys)"

definition dumps_item :: "env \<Rightarrow> item \<Rightarrow> string" where
  \<open>dumps_item E x =
     ''{"name": '' @ dumps_str (item_name x) @
     '', "summary": '' @ dumps_str (item_summary x) @
     '', "category": '' @ dumps_opt (item_category x) @
     '', "score": '' @ dumps_int (item_score x) @
     '', "inputType": '' @ dumps_opt (item_inputType x) @
     '', "outputType": '' @ dumps_opt (item_outputType x) @
     (case item_args x of None \<Rightarrow> [] | Some as \<Rightarrow> '', "args": '' @ args_json E as) @
     ''}''\<close>

definition dumps_preview :: "env \<Rightarrow> item list \<Rightarrow> string" where
  \<open>dumps_preview E xs =
     ''{"total": '' @ str_nat (length xs) @ '', "items": ['' @
     join '', '' (map (dumps_item E) xs) @ '']}''\<close>

text \<open>The \<^verbatim>\<open>while\<close> loop that pops the last item.\<close>

function pop_to_cap :: "env \<Rightarrow> item list \<Rightarrow> item list" where
  "pop_to_cap E xs =
     (if xs \<noteq> [] \<and> length xs > 1 \<and> length (dumps_preview E xs) > BYTE_CAP
      then pop_to_cap E (butlast xs) else xs)"
  by pat_completeness auto
termination
  by (relation "measure (\<lambda>p. length (snd p))") auto

declare pop_to_cap.simps [simp del]

record SearchOpsOut =
  total :: nat
  items :: "item list"
  truncated :: bool

text \<open>The ranked list, before the byte cap: \<^verbatim>\<open>items\<close> after \<^verbatim>\<open>items[:limit]\<close>.\<close>

definition ranked_items :: "env \<Rightarrow> catalog \<Rightarrow> string \<Rightarrow> limit_arg \<Rightarrow> bool \<Rightarrow> item list" where
  "ranked_items E cat query limit include_args =
     (let q = strip query;
          lim = effective_limit limit
      in take lim (sort_items (collect_items E cat q include_args (candidate_idxs E cat q lim))))"

definition search_operations :: "env \<Rightarrow> catalog \<Rightarrow> string \<Rightarrow> limit_arg \<Rightarrow> bool \<Rightarrow> SearchOpsOut" where
  "search_operations E cat query limit include_args =
     (let xs = ranked_items E cat query limit include_args
      in if length (dumps_preview E xs) > BYTE_CAP
         then (let ys = pop_to_cap E xs in \<lparr>total = length ys, items = ys, truncated = True\<rparr>)
         else \<lparr>total = length xs, items = xs, truncated = False\<rparr>)"

section \<open>The advisory validator\<close>

record SuggestionItem =
  sug_index :: nat
  sug_op :: string
  candidates :: "string list option"
  missingArgs :: "string list option"

record ValidateRecipeOut =
  vr_ok :: bool
  vr_errors :: "string list"
  suggestions :: "SuggestionItem list"
  normalized :: "RecipeOp list"

definition missing_op_message :: "nat \<Rightarrow> string" where
  \<open>missing_op_message i = ''Step '' @ str_nat i @ '' missing 'op' name''\<close>

text \<open>
  What one step adds to \<^verbatim>\<open>errors\<close>, \<^verbatim>\<open>suggestions\<close> and \<^verbatim>\<open>normalized\<close>. The tool receives
  a parsed \<^verbatim>\<open>ValidateRecipeIn\<close>, so a step is a \<^verbatim>\<open>RecipeOp\<close>.
\<close>

definition advise_step :: "env \<Rightarrow> catalog \<Rightarrow> nat \<Rightarrow> RecipeOp \<Rightarrow> string list \<times> SuggestionItem list \<times> RecipeOp list" where
  "advise_step E cat i step =
     (let name = strip (op step)
      in if name = [] then ([missing_op_message i], [], [])
         else (case map_of cat name of
                 None \<Rightarrow>
                   ([], [\<lparr>sug_index = i, sug_op = name,
                          candidates = Some (map fst (process_extract (WRatio E) name (map fst cat) 5)),
                          missingArgs = None\<rparr>], [])
               | Some d \<Rightarrow>
                   (let expected = map arg_name (args d);
                        got = map fst (step_args step);
                        unexpected = filter (\<lambda>k. k \<notin> set expected) got;
                        missing = filter (\<lambda>k. k \<notin> set got) expected
                    in ([],
                        (if unexpected \<noteq> []
                         then [\<lparr>sug_index = i, sug_op = name, candidates = None, missingArgs = None\<rparr>]
                         else []) @
                        (if missing \<noteq> []
                         then [\<lparr>sug_index = i, sug_op = name, candidates = None, missingArgs = Some missing\<rparr>]
                         else []),
                        [step]))))"

fun advise_loop :: "env \<Rightarrow> catalog \<Rightarrow> nat \<Rightarrow> RecipeOp list \<Rightarrow> string list \<times> SuggestionItem list \<times> RecipeOp list" where
  "advise_loop E cat i [] = ([], [], [])"
| "advise_loop E cat i (step # rest) =
     (let a = advise_step E cat i step;
          r = advise_loop E cat (Suc i) rest
      in (fst a @ fst r, fst (snd a) @ fst (snd r), snd (snd a) @ snd (snd r)))"

definition validate_recipe :: "env \<Rightarrow> catalog \<Rightarrow> RecipeOp list \<Rightarrow> ValidateRecipeOut" where
  "validate_recipe E cat recipe =
     (let r = advise_loop E cat 0 recipe
      in \<lparr>vr_ok = (fst (snd r) = [] \<and> fst r = []),
          vr_errors = fst r,
          suggestions = fst (snd r),
          normalized = snd (snd r)\<rparr>)"

section \<open>Predicates of the statements\<close>





text \<open>Score descending, then name ascending.\<close>

definition ranks_before :: "item \<Rightarrow> item \<Rightarrow> bool" where
  "ranks_before x y \<longleftrightarrow>
     item_score x > item_score y \<or> (item_score x = item_score y \<and> item_name x < item_name y)"

text \<open>An entry passes the category filter of discovery.\<close>

definition in_discovery :: "string \<times> operation_def \<Rightarrow> bool" where
  "in_discovery entry \<longleftrightarrow>
     \<not> (CYBERCHEF_ALLOWED_CATEGORIES \<noteq> [] \<and> strip (module (snd entry)) \<noteq> [] \<and>
        strip (module (snd entry)) \<notin> set CYBERCHEF_ALLOWED_CATEGORIES)"

section \<open>Example data\<close>

definition ex_env :: env where
  "ex_env =
     \<lparr>default_process = map lower,
      WRatio = (\<lambda>q c. if q = c then 100 else 0),
      partial_token_set_ratio = (\<lambda>q c. 0),
      token_set_ratio = (\<lambda>q c. 0),
      py_str = (\<lambda>j. case j of JStr s \<Rightarrow> s | _ \<Rightarrow> []),
      bytes_decode = (\<lambda>j. []),
      args_json = (\<lambda>as. ''[]''),
      CYBERCHEF_API_URL = ''http://localhost:3000/''\<rparr>"

definition ex_op :: "string \<Rightarrow> string \<Rightarrow> arg_def list \<Rightarrow> operation_def" where
  "ex_op m d as =
     \<lparr>module = m, description = Some d, inputType = ''string'', outputType = ''string'', args = as\<rparr>"

definition ex_cat :: catalog where
  "ex_cat =
     [(''To Hex'', ex_op ''Default'' ''Converts to hex''
         [EnumArgDef ''Delimiter'' [''Space'', ''Comma''] False, NumberArgDef ''Bytes per line'' (Some 0) None False]),
      (''From Hex'', ex_op ''Default'' ''Converts from hex'' []),
      (''Gunzip'', ex_op ''Compression'' ''Decompresses gzip'' [])]"


definition ex_good_recipe :: "raw_step list" where
  "ex_good_recipe = [\<lparr>op_key = Some (JStr ''From Hex''), args_key = Some (JObj [])\<rparr>]"

definition ex_up_error :: upstream where
  "ex_up_error url body = Responded 500 None"

definition ex_up_down :: upstream where
  "ex_up_down url body = TransportFailed"



text \<open>One operation with a name of 1100 characters.\<close>

definition long_cat :: catalog where
  "long_cat = [(replicate 1100 (CHR ''a''), ex_op ''Default'' ''Long'' [])]"


definition ex_advice_recipe :: "RecipeOp list" where
  "ex_advice_recipe =
     [\<lparr>op = ''  '', step_args = []\<rparr>,
      \<lparr>op = ''To Hex'', step_args = [(''Delimeter'', JStr ''Space'')]\<rparr>,
      \<lparr>op = ''Gunzipp'', step_args = []\<rparr>]"

section \<open>Unknown argument keys\<close>

text \<open>
  Claim C2. For every operation definition and every provided argument mapping with at
  least one key that the definition does not declare, \<^verbatim>\<open>validate_args\<close> fails with the
  one error \<^verbatim>\<open>unknown args\<close>, whose list holds exactly the undeclared keys, each once,
  in ascending order.
\<close>

theorem validate_args_unknown_keys:
  assumes "k \<in> fst ` set provided" and "k \<notin> arg_name ` set (args d)"
  shows "\<exists>ks. validate_args d provided = Inl (UnknownArgs ks)
           \<and> set ks = fst ` set provided - arg_name ` set (args d)
           \<and> sorted ks \<and> distinct ks"
proof -
  let ?U = "set (map fst provided) - set (map arg_name (args d))"
  from assms have ne: "?U \<noteq> {}" by auto
  have fin: "finite ?U" by simp
  have "validate_args d provided = Inl (UnknownArgs (sorted_list_of_set ?U))"
    using ne by (simp add: validate_args_def Let_def)
  moreover have "set (sorted_list_of_set ?U) = fst ` set provided - arg_name ` set (args d)"
    using fin by simp
  ultimately show ?thesis
    by (intro exI [of _ "sorted_list_of_set ?U"]) simp
qed

theorem validate_args_unknown_keys_witness:
  "\<exists>ks. validate_args (ex_op ''Default'' ''d'' [StringArgDef ''Key'' False])
            [(''zeta'', JNull), (''Key'', JStr ''k''), (''alpha'', JInt 1)] = Inl (UnknownArgs ks)
       \<and> set ks = {''zeta'', ''alpha''} \<and> sorted ks \<and> distinct ks"
proof -
  have h1: "''zeta'' \<in> fst ` set [(''zeta'', JNull), (''Key'', JStr ''k''), (''alpha'', JInt 1)]"
    by simp
  have h2: "''zeta'' \<notin> arg_name ` set (args (ex_op ''Default'' ''d'' [StringArgDef ''Key'' False]))"
    by (simp add: ex_op_def)
  have "fst ` set [(''zeta'', JNull), (''Key'', JStr ''k''), (''alpha'', JInt 1)]
          - arg_name ` set (args (ex_op ''Default'' ''d'' [StringArgDef ''Key'' False]))
        = {''zeta'', ''alpha''}"
    by (auto simp: ex_op_def)
  with validate_args_unknown_keys [OF h1 h2] show ?thesis by simp
qed

section \<open>The empty recipe\<close>

text \<open>
  \<^verbatim>\<open>bake_recipe\<close> refuses a recipe without steps before anything else: one error, and the
  log of upstream calls is as it was.
\<close>

lemma bake_recipe_empty:
  "\<exists>msg. bake_recipe E cat up input_data [] w =
     (Inr \<lparr>ok = False, output = None, rtype = None, errors = [Text msg], warnings = []\<rparr>, w)"
  by (simp add: bake_recipe_def)

text \<open>
  Claim C4 asks the same of \<^verbatim>\<open>batch_bake_recipe\<close>. That tool has no such guard: the empty
  recipe has no failing step, so it is posted to \<^verbatim>\<open>batch/bake\<close>. For every input list,
  catalog and upstream, the call with the empty recipe appends one request to the log.
\<close>

theorem batch_bake_recipe_empty_calls_upstream:
  "snd (batch_bake_recipe E cat up batch_input_data [] w) =
     w @ [(CYBERCHEF_API_URL E @ ''batch/bake'',
           JObj [(''input'', JArr (map JStr batch_input_data)), (''recipe'', JArr [])])]"
  by (simp add: batch_bake_recipe_def validate_recipe_priv_def create_api_request_def Let_def
        split: prod.splits sum.splits)

section \<open>Upstream failures\<close>

text \<open>
  The body of the \<^verbatim>\<open>try\<close> never raises the class that the handler names, so whatever it
  raises leaves \<^verbatim>\<open>create_api_request\<close>.
\<close>

lemma post_json_not_urllib: "post_json up url request_data \<noteq> Inl (UrllibHTTPError m)"
  by (simp add: post_json_def split: http_outcome.splits option.splits)

lemma create_api_request_raises:
  assumes "up (CYBERCHEF_API_URL E @ endpoint) request_data = TransportFailed
           \<or> (\<exists>code body. up (CYBERCHEF_API_URL E @ endpoint) request_data = Responded code body
                \<and> 400 \<le> code \<and> code < 600)"
  shows "\<exists>x. fst (create_api_request E up endpoint request_data w) = Inl x"
  using assms
  by (auto simp: create_api_request_def post_json_def Let_def)

text \<open>
  Claim C8 says that a failed upstream call becomes a response with \<^verbatim>\<open>ok\<close> false. On a
  valid one-step recipe, an upstream that answers status 500 makes \<^verbatim>\<open>bake_recipe\<close> end in
  the \<^verbatim>\<open>HTTPError\<close> of \<^verbatim>\<open>requests\<close>, and an upstream that cannot be reached makes it end
  in the \<^verbatim>\<open>ConnectionError\<close> of \<^verbatim>\<open>requests\<close>: no response is built.
\<close>

theorem bake_recipe_upstream_failure_propagates:
  "fst (bake_recipe ex_env ex_cat ex_up_error ''abc'' ex_good_recipe []) = Inl (RequestsHTTPError 500)
   \<and> fst (bake_recipe ex_env ex_cat ex_up_down ''abc'' ex_good_recipe []) = Inl RequestsConnectionError"
  by code_simp

section \<open>The limit of a search\<close>

lemma length_pop_to_cap: "length (pop_to_cap E xs) \<le> length xs"
proof (induction E xs rule: pop_to_cap.induct)
  case (1 E xs)
  show ?case
  proof (cases "xs \<noteq> [] \<and> length xs > 1 \<and> length (dumps_preview E xs) > BYTE_CAP")
    case True
    with 1 have "length (pop_to_cap E (butlast xs)) \<le> length (butlast xs)" by simp
    with True show ?thesis by (subst pop_to_cap.simps) simp
  next
    case False
    then show ?thesis by (subst pop_to_cap.simps) auto
  qed
qed

lemma length_ranked_items: "length (ranked_items E cat q l inc) \<le> effective_limit l"
  by (simp add: ranked_items_def Let_def)

lemma length_search_le_limit:
  "length (items (search_operations E cat q l inc)) \<le> effective_limit l"
  using length_pop_to_cap [of E "ranked_items E cat q l inc"] length_ranked_items [of E cat q l inc]
  by (simp add: search_operations_def Let_def)

lemma effective_limit_range: "1 \<le> effective_limit l \<and> effective_limit l \<le> 20"
  by (auto simp: effective_limit_def Let_def DEFAULT_LIMIT_def MAX_LIMIT_def max_def min_def)

text \<open>
  Claim C10. Whatever is passed as \<^verbatim>\<open>limit\<close> (nothing, any integer, a dict of integers),
  the search returns a result: the limit in force lies between 1 and 20, it is 10 when
  nothing is passed and when the dict has no key \<^verbatim>\<open>"value"\<close>, a dict with that key counts
  as its value, and the result has at most 20 items.
\<close>

theorem search_limit_clamped:
  "1 \<le> effective_limit l \<and> effective_limit l \<le> 20
   \<and> effective_limit LimitNone = 10
   \<and> (map_of d ''value'' = None \<longrightarrow> effective_limit (LimitDict d) = 10)
   \<and> effective_limit (LimitDict [(''value'', n)]) = effective_limit (LimitInt n)
   \<and> length (items (search_operations E cat q l inc)) \<le> 20"
proof -
  have "length (items (search_operations E cat q l inc)) \<le> 20"
    using length_search_le_limit [of E cat q l inc] effective_limit_range [of l] by linarith
  moreover have "effective_limit LimitNone = 10"
    by (simp add: effective_limit_def DEFAULT_LIMIT_def MAX_LIMIT_def)
  moreover have "map_of d ''value'' = None \<longrightarrow> effective_limit (LimitDict d) = 10"
    by (simp add: effective_limit_def DEFAULT_LIMIT_def MAX_LIMIT_def)
  moreover have "effective_limit (LimitDict [(''value'', n)]) = effective_limit (LimitInt n)"
    by (simp add: effective_limit_def)
  ultimately show ?thesis using effective_limit_range [of l] by blast
qed

theorem search_limit_clamped_witness:
  "effective_limit (LimitInt (- 3)) = 1 \<and> effective_limit (LimitInt 0) = 10
   \<and> effective_limit (LimitInt 500) = 20 \<and> effective_limit (LimitDict [(''other'', 7)]) = 10
   \<and> effective_limit (LimitDict [(''value'', 7)]) = 7
   \<and> length (items (search_operations ex_env ex_cat ''hex'' (LimitDict [(''other'', 7)]) False)) \<le> 20"
proof -
  have h: "map_of [(''other'', 7::int)] ''value'' = None" by simp
  have a: "effective_limit (LimitInt (- 3)) = 1" "effective_limit (LimitInt 0) = 10"
    "effective_limit (LimitInt 500) = 20" "effective_limit (LimitDict [(''value'', 7)]) = 7"
    by (simp_all add: effective_limit_def DEFAULT_LIMIT_def MAX_LIMIT_def)
  from search_limit_clamped [of "LimitDict [(''other'', 7)]" "[(''other'', 7)]" 7 ex_env ex_cat "''hex''" False] h a
  show ?thesis by simp
qed

section \<open>The advisory validator covers every step\<close>

lemma advise_loop_covers:
  "j < length recipe \<Longrightarrow>
     (strip (op (recipe ! j)) = [] \<longrightarrow>
        missing_op_message (i + j) \<in> set (fst (advise_loop E cat i recipe)))
   \<and> (strip (op (recipe ! j)) \<noteq> [] \<and> map_of cat (strip (op (recipe ! j))) = None \<longrightarrow>
        (\<exists>s \<in> set (fst (snd (advise_loop E cat i recipe))).
           sug_index s = i + j \<and> sug_op s = strip (op (recipe ! j)) \<and> candidates s \<noteq> None))
   \<and> (strip (op (recipe ! j)) \<noteq> [] \<and> map_of cat (strip (op (recipe ! j))) \<noteq> None \<longrightarrow>
        recipe ! j \<in> set (snd (snd (advise_loop E cat i recipe))))"
proof (induction recipe arbitrary: i j)
  case Nil
  then show ?case by simp
next
  case (Cons step rest)
  show ?case
  proof (cases j)
    case 0
    then show ?thesis
      by (auto simp: advise_step_def Let_def split: option.splits)
  next
    case (Suc k)
    with Cons.prems have k: "k < length rest" by simp
    from Cons.IH [OF k, of "Suc i"] Suc show ?thesis
      by (auto simp: Let_def)
  qed
qed

text \<open>
  Claim C9. \<^verbatim>\<open>validate_recipe\<close> is a total function of its input: it returns for every
  recipe, with blank names, unknown operations and missing or unexpected argument keys.
  Every step of the input is in \<^verbatim>\<open>normalized\<close>, or \<^verbatim>\<open>errors\<close> holds the message with its
  index, or \<^verbatim>\<open>suggestions\<close> holds an entry with its index.
\<close>

theorem validate_recipe_covers_every_step:
  "\<forall>j < length recipe.
     recipe ! j \<in> set (normalized (validate_recipe E cat recipe))
     \<or> missing_op_message j \<in> set (vr_errors (validate_recipe E cat recipe))
     \<or> (\<exists>s \<in> set (suggestions (validate_recipe E cat recipe)). sug_index s = j)"
proof (intro allI impI)
  fix j assume j: "j < length recipe"
  from advise_loop_covers [OF j, of 0 E cat] show
    "recipe ! j \<in> set (normalized (validate_recipe E cat recipe))
     \<or> missing_op_message j \<in> set (vr_errors (validate_recipe E cat recipe))
     \<or> (\<exists>s \<in> set (suggestions (validate_recipe E cat recipe)). sug_index s = j)"
    by (cases "strip (op (recipe ! j)) = []"; cases "map_of cat (strip (op (recipe ! j)))")
       (auto simp: validate_recipe_def Let_def)
qed

theorem validate_recipe_covers_every_step_witness:
  "(1::nat) < length ex_advice_recipe
   \<and> (ex_advice_recipe ! 1 \<in> set (normalized (validate_recipe ex_env ex_cat ex_advice_recipe))
     \<or> missing_op_message 1 \<in> set (vr_errors (validate_recipe ex_env ex_cat ex_advice_recipe))
     \<or> (\<exists>s \<in> set (suggestions (validate_recipe ex_env ex_cat ex_advice_recipe)). sug_index s = 1))"
proof -
  have h: "(1::nat) < length ex_advice_recipe" by (simp add: ex_advice_recipe_def)
  from validate_recipe_covers_every_step [of ex_advice_recipe ex_env ex_cat] h
  show ?thesis by blast
qed

section \<open>Rejecting a recipe with a failing step\<close>


lemma in_process_extract:
  assumes "m \<in> set (process_extract scorer q choices k)"
  shows "snd (snd m) < length choices \<and> choices ! (snd (snd m)) = fst m"
proof -
  from assms have "m \<in> set (map (\<lambda>ic. (snd ic, scorer q (snd ic), fst ic)) (enumerate 0 choices))"
    unfolding process_extract_def using set_take_subset by fastforce
  then obtain ic where "ic \<in> set (enumerate 0 choices)" "m = (snd ic, scorer q (snd ic), fst ic)"
    by auto
  then show ?thesis by (simp add: in_set_enumerate_eq)
qed





text \<open>
  An operation that is a list is looked up in the catalog dict by the handler, which
  raises: the hypothesis on the operation below is needed.
\<close>

lemma bake_recipe_unhashable_op:
  "bake_recipe E cat up input_data [\<lparr>op_key = Some (JArr xs), args_key = None\<rparr>] w = (Inl TypeError, w)"
  by (simp add: bake_recipe_def validate_recipe_priv_def try_step_def parse_RecipeOp_def
        handle_step_def expected_args_def)




section \<open>The byte cap\<close>

text \<open>The loop pops from the end: what it returns is a prefix of what it was given.\<close>

lemma prefix_pop_to_cap: "prefix (pop_to_cap E xs) xs"
proof (induction E xs rule: pop_to_cap.induct)
  case (1 E xs)
  show ?case
  proof (cases "xs \<noteq> [] \<and> length xs > 1 \<and> length (dumps_preview E xs) > BYTE_CAP")
    case True
    with 1 have "prefix (pop_to_cap E (butlast xs)) (butlast xs)" by simp
    moreover have "prefix (butlast xs) xs" by (simp add: prefixeq_butlast)
    ultimately have "prefix (pop_to_cap E (butlast xs)) xs" by (rule prefix_order.trans)
    with True show ?thesis by (subst pop_to_cap.simps) simp
  next
    case False
    then show ?thesis by (subst pop_to_cap.simps) auto
  qed
qed

text \<open>
  The loop stops when the preview fits or one item is left; it never empties the list.
\<close>

lemma pop_to_cap_result:
  "xs \<noteq> [] \<Longrightarrow>
     pop_to_cap E xs \<noteq> []
     \<and> (length (dumps_preview E (pop_to_cap E xs)) \<le> BYTE_CAP \<or> length (pop_to_cap E xs) = 1)"
proof (induction E xs rule: pop_to_cap.induct)
  case (1 E xs)
  show ?case
  proof (cases "length xs > 1 \<and> length (dumps_preview E xs) > BYTE_CAP")
    case True
    then have ne: "butlast xs \<noteq> []" by (cases xs rule: rev_cases) auto
    from True "1.prems" have c: "xs \<noteq> [] \<and> length xs > 1 \<and> length (dumps_preview E xs) > BYTE_CAP"
      by simp
    from "1.IH" [OF c ne] c show ?thesis by (subst (1 2 3) pop_to_cap.simps) simp
  next
    case False
    with "1.prems" have "pop_to_cap E xs = xs" by (subst pop_to_cap.simps) auto
    moreover from False "1.prems" have "length (dumps_preview E xs) \<le> BYTE_CAP \<or> length xs = 1"
      by (cases xs) auto
    ultimately show ?thesis using "1.prems" by simp
  qed
qed

lemma str_nat_0: "str_nat 0 = [digit_char 0]"
  by (subst str_nat.simps) simp

lemma dumps_preview_empty: "length (dumps_preview E []) \<le> BYTE_CAP"
  by (simp add: dumps_preview_def str_nat_0 BYTE_CAP_def)

text \<open>
  Claim C5, amended. Let the ranked list be the items after \<^verbatim>\<open>items[:limit]\<close>. If its
  preview is longer than the byte cap, the returned items are a prefix of the ranked list
  and not empty, \<^verbatim>\<open>truncated\<close> is true, and the preview of the returned items fits the
  cap or exactly one item is returned. If the preview of the ranked list fits the cap, the ranked list
  is returned as it is and \<^verbatim>\<open>truncated\<close> is false.
\<close>

theorem search_truncation:
  "(length (dumps_preview E (ranked_items E cat q l inc)) > BYTE_CAP \<longrightarrow>
       (length (dumps_preview E (items (search_operations E cat q l inc))) \<le> BYTE_CAP
          \<or> length (items (search_operations E cat q l inc)) = 1)
       \<and> items (search_operations E cat q l inc) \<noteq> []
       \<and> prefix (items (search_operations E cat q l inc)) (ranked_items E cat q l inc)
       \<and> truncated (search_operations E cat q l inc))
   \<and> (length (dumps_preview E (ranked_items E cat q l inc)) \<le> BYTE_CAP \<longrightarrow>
       items (search_operations E cat q l inc) = ranked_items E cat q l inc
       \<and> \<not> truncated (search_operations E cat q l inc))"
proof (cases "length (dumps_preview E (ranked_items E cat q l inc)) > BYTE_CAP")
  case True
  then have ne: "ranked_items E cat q l inc \<noteq> []"
    using dumps_preview_empty [of E] by auto
  from True have r: "search_operations E cat q l inc =
     \<lparr>total = length (pop_to_cap E (ranked_items E cat q l inc)),
      items = pop_to_cap E (ranked_items E cat q l inc), truncated = True\<rparr>"
    by (simp add: search_operations_def Let_def)
  from pop_to_cap_result [OF ne, of E] prefix_pop_to_cap [of E "ranked_items E cat q l inc"] True
  show ?thesis by (simp add: r)
next
  case False
  then show ?thesis by (simp add: search_operations_def Let_def)
qed

text \<open>The JSON text of an item is at least as long as its name and as its summary.\<close>

lemma length_concat_escape: "length s \<le> length (concat (map json_escape s))"
proof (induction s)
  case Nil
  then show ?case by simp
next
  case (Cons c s)
  have "1 \<le> length (json_escape c)" by (simp add: json_escape_def Let_def)
  with Cons show ?case by simp
qed

lemma length_dumps_str: "length s \<le> length (dumps_str s)"
  using length_concat_escape [of s] by (simp add: dumps_str_def)

lemma length_dumps_item_name: "length (item_name x) \<le> length (dumps_item E x)"
  using length_dumps_str [of "item_name x"] by (simp add: dumps_item_def)


lemma length_join: "sum_list (map length xs) \<le> length (join sep xs)"
  by (induction sep xs rule: join.induct) auto

lemma length_dumps_preview: "sum_list (map (\<lambda>x. length (dumps_item E x)) xs) \<le> length (dumps_preview E xs)"
  using length_join [of "map (dumps_item E) xs" "'', ''"]
  by (simp add: dumps_preview_def comp_def)

text \<open>An item carries the name of its catalog entry; an entry yields an item when it passes the filter.\<close>

lemma make_item_name: "make_item E q inc e = Some x \<Longrightarrow> item_name x = fst e"
  by (auto simp: make_item_def Let_def split: if_splits)

lemma make_item_in_discovery: "make_item E q inc e \<noteq> None \<longleftrightarrow> in_discovery e"
  by (auto simp: make_item_def in_discovery_def Let_def)

lemma strip_Default: "strip ''Default'' = ''Default''"
  by code_simp

lemma in_discovery_ex_op: "in_discovery (n, ex_op ''Default'' d as)"
  by (simp add: in_discovery_def ex_op_def strip_Default CYBERCHEF_ALLOWED_CATEGORIES_def)

lemma strip_empty: "strip [] = []"
  by (simp add: strip_def strip_where_def)

lemma effective_limit_5: "effective_limit (LimitInt 5) = 5"
  by (simp add: effective_limit_def MAX_LIMIT_def)

lemma ranked_items_long_cat:
  "\<exists>x. ranked_items ex_env long_cat [] (LimitInt 5) False = [x] \<and> length (item_name x) = 1100"
proof -
  have "make_item ex_env [] False (long_cat ! 0) \<noteq> None"
    unfolding make_item_in_discovery by (simp add: long_cat_def in_discovery_ex_op)
  then obtain x where x: "make_item ex_env [] False (long_cat ! 0) = Some x" by blast
  have idx: "candidate_idxs ex_env long_cat [] 5 = [0]"
    by (simp add: candidate_idxs_def long_cat_def)
  have "ranked_items ex_env long_cat [] (LimitInt 5) False = [x]"
    using x by (simp add: ranked_items_def strip_empty effective_limit_5 idx collect_items_def
        sort_items_def)
  moreover from make_item_name [OF x] have "length (item_name x) = 1100"
    by (simp add: long_cat_def)
  ultimately show ?thesis by blast
qed

text \<open>
  Claim C5 as stated fails: for the catalog of one operation with a name of 1100
  characters, the preview of the ranked list is over the cap, the response is marked
  truncated, and the preview of the returned items is still over the cap, because the
  loop keeps the last item.
\<close>

theorem search_truncation_counterexample:
  "length (dumps_preview ex_env (ranked_items ex_env long_cat [] (LimitInt 5) False)) > BYTE_CAP
   \<and> truncated (search_operations ex_env long_cat [] (LimitInt 5) False)
   \<and> \<not> length (dumps_preview ex_env (items (search_operations ex_env long_cat [] (LimitInt 5) False))) \<le> BYTE_CAP"
proof -
  from ranked_items_long_cat obtain x where
    r: "ranked_items ex_env long_cat [] (LimitInt 5) False = [x]" and n: "length (item_name x) = 1100"
    by blast
  have big: "length (dumps_preview ex_env [x]) > BYTE_CAP"
    using length_dumps_preview [of ex_env "[x]"] length_dumps_item_name [of x ex_env] n
    by (simp add: BYTE_CAP_def)
  have "pop_to_cap ex_env [x] = [x]" by (subst pop_to_cap.simps) simp
  with big r show ?thesis by (simp add: search_operations_def Let_def)
qed

lemma ex_cat_under_cap:
  "length (dumps_preview ex_env (ranked_items ex_env ex_cat [] (LimitInt 5) False)) \<le> BYTE_CAP"
  by code_simp

theorem search_truncation_witness:
  "(length (dumps_preview ex_env (ranked_items ex_env long_cat [] (LimitInt 5) False)) > BYTE_CAP
     \<and> length (items (search_operations ex_env long_cat [] (LimitInt 5) False)) = 1
     \<and> prefix (items (search_operations ex_env long_cat [] (LimitInt 5) False))
           (ranked_items ex_env long_cat [] (LimitInt 5) False)
     \<and> truncated (search_operations ex_env long_cat [] (LimitInt 5) False))
   \<and> (length (dumps_preview ex_env (ranked_items ex_env ex_cat [] (LimitInt 5) False)) \<le> BYTE_CAP
     \<and> items (search_operations ex_env ex_cat [] (LimitInt 5) False)
           = ranked_items ex_env ex_cat [] (LimitInt 5) False
     \<and> \<not> truncated (search_operations ex_env ex_cat [] (LimitInt 5) False))"
proof -
  from ranked_items_long_cat obtain x where
    r: "ranked_items ex_env long_cat [] (LimitInt 5) False = [x]" and n: "length (item_name x) = 1100"
    by blast
  have big: "length (dumps_preview ex_env (ranked_items ex_env long_cat [] (LimitInt 5) False)) > BYTE_CAP"
    using length_dumps_preview [of ex_env "[x]"] length_dumps_item_name [of x ex_env] n r
    by (simp add: BYTE_CAP_def)
  from search_truncation [of ex_env long_cat "[]" "LimitInt 5" False] big
  have p: "prefix (items (search_operations ex_env long_cat [] (LimitInt 5) False))
             (ranked_items ex_env long_cat [] (LimitInt 5) False)"
    and t: "truncated (search_operations ex_env long_cat [] (LimitInt 5) False)"
    and c: "items (search_operations ex_env long_cat [] (LimitInt 5) False) \<noteq> []"
    by blast+
  from p r have "items (search_operations ex_env long_cat [] (LimitInt 5) False) = []
      \<or> items (search_operations ex_env long_cat [] (LimitInt 5) False) = [x]"
    by (cases "items (search_operations ex_env long_cat [] (LimitInt 5) False)") auto
  with c have one: "length (items (search_operations ex_env long_cat [] (LimitInt 5) False)) = 1"
    by auto
  from search_truncation [of ex_env ex_cat "[]" "LimitInt 5" False] ex_cat_under_cap
  have "items (search_operations ex_env ex_cat [] (LimitInt 5) False)
           = ranked_items ex_env ex_cat [] (LimitInt 5) False
     \<and> \<not> truncated (search_operations ex_env ex_cat [] (LimitInt 5) False)"
    by blast
  with big one p t ex_cat_under_cap show ?thesis by blast
qed

section \<open>Order, names and length of a search result\<close>


lemma candidate_idxs_distinct: "distinct (candidate_idxs E cat q k)"
  by (simp add: candidate_idxs_def Let_def)

lemma candidate_idxs_bound:
  assumes "i \<in> set (candidate_idxs E cat q k)"
  shows "i < length cat"
proof (cases "q = []")
  case True
  with assms show ?thesis by (simp add: candidate_idxs_def)
next
  case False
  with assms consider
      m where "m \<in> set (process_extract (WRatio E) q (map fst cat) (k * 2))" "i = snd (snd m)"
    | m where "m \<in> set (process_extract (partial_token_set_ratio E) q
                 (map (\<lambda>e. str_description (snd e)) cat) (k * 2))" "i = snd (snd m)"
    by (auto simp: candidate_idxs_def Let_def)
  then show ?thesis
  proof cases
    case 1
    with in_process_extract [OF 1(1)] show ?thesis by simp
  next
    case 2
    with in_process_extract [OF 2(1)] show ?thesis by simp
  qed
qed

lemma set_collect_items:
  "set (collect_items E cat q inc idxs) = {x. \<exists>i \<in> set idxs. make_item E q inc (cat ! i) = Some x}"
  by (force simp: collect_items_def List.map_filter_def)

text \<open>Distinct positions of a catalog with distinct keys give items of distinct names.\<close>

lemma distinct_names_collect:
  assumes "distinct (map fst cat)"
  shows "distinct idxs \<Longrightarrow> \<forall>i \<in> set idxs. i < length cat \<Longrightarrow>
         distinct (map item_name (collect_items E cat q inc idxs))"
proof (induction idxs)
  case Nil
  then show ?case by (simp add: collect_items_def)
next
  case (Cons i idxs)
  then have IH: "distinct (map item_name (collect_items E cat q inc idxs))" by simp
  show ?case
  proof (cases "make_item E q inc (cat ! i)")
    case None
    with IH show ?thesis by (simp add: collect_items_def)
  next
    case (Some x)
    have "item_name x \<notin> item_name ` set (collect_items E cat q inc idxs)"
    proof
      assume "item_name x \<in> item_name ` set (collect_items E cat q inc idxs)"
      then obtain j y where j: "j \<in> set idxs" and y: "make_item E q inc (cat ! j) = Some y"
        and eq: "item_name x = item_name y"
        by (auto simp: set_collect_items)
      from make_item_name [OF Some] make_item_name [OF y] eq
      have "fst (cat ! i) = fst (cat ! j)" by simp
      moreover from Cons.prems j have "i < length cat" "j < length cat" "i \<noteq> j" by auto
      ultimately show False
        using assms by (simp add: distinct_conv_nth)
    qed
    with IH Some show ?thesis by (simp add: collect_items_def)
  qed
qed

text \<open>
  The sort orders by the pair of negated score and name; with distinct names the order is
  strict.
\<close>

lemma sorted_wrt_sort_items:
  assumes "distinct (map item_name xs)"
  shows "sorted_wrt ranks_before (sort_items xs)"
proof -
  let ?key = "\<lambda>x. (- item_score x, item_name x)"
  have inj: "inj_on ?key (set xs)"
    using assms by (auto simp: inj_on_def distinct_map)
  have "distinct xs" using assms by (simp add: distinct_map)
  with inj have "distinct (map ?key (sort_items xs))"
    by (simp add: distinct_map sort_items_def)
  moreover have "sorted (map ?key (sort_items xs))"
    by (simp add: sort_items_def)
  ultimately have "sorted_wrt (<) (map ?key (sort_items xs))"
    by (simp add: strict_sorted_iff)
  then have "sorted_wrt (\<lambda>x y. ?key x < ?key y) (sort_items xs)"
    by (simp add: sorted_wrt_map)
  then show ?thesis
    by (rule sorted_wrt_mono_rel [rotated]) (auto simp: ranks_before_def less_prod_def)
qed

lemma ranked_items_sorted:
  assumes "distinct (map fst cat)"
  shows "sorted_wrt ranks_before (ranked_items E cat q l inc)
         \<and> distinct (map item_name (ranked_items E cat q l inc))"
proof -
  let ?c = "collect_items E cat (strip q) inc (candidate_idxs E cat (strip q) (effective_limit l))"
  have d: "distinct (map item_name ?c)"
    using distinct_names_collect [OF assms candidate_idxs_distinct] candidate_idxs_bound by blast
  then have "distinct (map item_name (sort_items ?c))"
    by (simp add: distinct_map sort_items_def)
  then have "distinct (map item_name (take (effective_limit l) (sort_items ?c)))"
    by (simp add: take_map [symmetric] distinct_take del: take_map)
  moreover have "sorted_wrt ranks_before (take (effective_limit l) (sort_items ?c))"
    using sorted_wrt_sort_items [OF d] by (rule sorted_wrt_take)
  ultimately show ?thesis by (simp add: ranked_items_def Let_def)
qed

lemma items_prefix_ranked:
  "prefix (items (search_operations E cat q l inc)) (ranked_items E cat q l inc)"
  using prefix_pop_to_cap [of E "ranked_items E cat q l inc"]
  by (simp add: search_operations_def Let_def)

text \<open>
  Claim C6. For a catalog with distinct keys (it is a dict), every query and every limit,
  the items of the result are in the order of score descending and, at equal score, name
  ascending; no two items have the same name; and there are at most as many as the limit
  in force, which is at most the requested limit when that is an integer from 1 up.
\<close>

theorem search_sorted_distinct_bounded:
  assumes "distinct (map fst cat)"
  shows "sorted_wrt ranks_before (items (search_operations E cat q l inc))
     \<and> distinct (map item_name (items (search_operations E cat q l inc)))
     \<and> length (items (search_operations E cat q l inc)) \<le> effective_limit l
     \<and> (\<forall>n. l = LimitInt n \<and> 1 \<le> n \<longrightarrow> length (items (search_operations E cat q l inc)) \<le> nat n)"
proof -
  from items_prefix_ranked [of E cat q l inc] obtain zs where
    z: "ranked_items E cat q l inc = items (search_operations E cat q l inc) @ zs"
    by (auto simp: prefix_def)
  from ranked_items_sorted [OF assms, of E q l inc] z
  have "sorted_wrt ranks_before (items (search_operations E cat q l inc))"
    and "distinct (map item_name (items (search_operations E cat q l inc)))"
    by (simp_all add: sorted_wrt_append)
  moreover have "\<forall>n. l = LimitInt n \<and> 1 \<le> n \<longrightarrow> length (items (search_operations E cat q l inc)) \<le> nat n"
  proof (intro allI impI)
    fix n assume "l = LimitInt n \<and> 1 \<le> n"
    then have "effective_limit l \<le> nat n"
      by (auto simp: effective_limit_def Let_def MAX_LIMIT_def max_def min_def)
    with length_search_le_limit [of E cat q l inc]
    show "length (items (search_operations E cat q l inc)) \<le> nat n" by linarith
  qed
  ultimately show ?thesis using length_search_le_limit [of E cat q l inc] by blast
qed

theorem search_sorted_distinct_bounded_witness:
  "distinct (map fst ex_cat)
   \<and> sorted_wrt ranks_before (items (search_operations ex_env ex_cat ''hex'' (LimitInt 2) False))
   \<and> distinct (map item_name (items (search_operations ex_env ex_cat ''hex'' (LimitInt 2) False)))
   \<and> length (items (search_operations ex_env ex_cat ''hex'' (LimitInt 2) False)) \<le> 2"
proof -
  have h: "distinct (map fst ex_cat)" by (simp add: ex_cat_def)
  from search_sorted_distinct_bounded [OF h, of ex_env "''hex''" "LimitInt 2" False] h
  show ?thesis by simp
qed

section \<open>Search with an empty query\<close>


















section \<open>The enum table and its normalizer\<close>




























text \<open>
  The two conditions on the slug are both needed. A label whose slug is a numbered key of
  a collision that comes later in the list is overwritten in the table. And a text that
  leaves out a character which the slug turns into a hyphen has another slug: it is
  returned as it is.
\<close>

lemma normalize_str_shadowed:
  "normalize_str (table_of_options [''b-1'', ''B'', ''b'']) ''b-1'' = ''B''"
  by code_simp

lemma normalize_str_inner_punctuation:
  "normalize_str (table_of_options [''UTF-8 (65001)'', ''UTF-7 (65000)'']) ''utf8'' = ''utf8''"
  by code_simp


end
